theory Spec2Isabelle
  imports Main "HOL-Library.AList"
begin

section \<open>JavaScript values and thrown errors\<close>

text \<open>
  The values a storage read can hand back: a string, \<open>null\<close>, or a value of another
  type (the source notes that stored values "can be of any type").
\<close>

datatype JSValue = JSString string | JSNull | JSNumber int | JSBoolean bool

definition typeof :: "JSValue \<Rightarrow> string" where
  "typeof v = (case v of JSString _ \<Rightarrow> ''string'' | JSNull \<Rightarrow> ''object''
                 | JSNumber _ \<Rightarrow> ''number'' | JSBoolean _ \<Rightarrow> ''boolean'')"

text \<open>
  Modelled from the spec: \<open>goog.storage.mechanism.ErrorCode\<close> (errorcode.js), the three
  failure reasons of section 7: storage disabled, quota exceeded, invalid value.
\<close>

datatype ErrorCode = INVALID_VALUE | QUOTA_EXCEEDED | STORAGE_DISABLED

text \<open>
  Everything a method of the mechanism can throw: one of the error codes, the
  \<open>TypeError\<close> of a property access on a \<open>null\<close> storage handle, a failed
  \<open>goog.asserts.assertString\<close>, or the exception of a host call that the method does
  not catch.
\<close>

datatype Thrown = ErrorCode ErrorCode | TypeError | AssertionError | HostException

section \<open>The host storage object\<close>

text \<open>
  Modelled from the spec: the host-provided key/value storage API of section 6
  (get/set/remove/clear/length/key-by-index), the browser's \<open>Storage\<close> object, which the
  mechanism wraps and the repository does not contain.

  \<open>items\<close> are the stored entries in the order \<open>key(index)\<close> enumerates them.
  \<open>rejects\<close> is the user agent's write policy (quota, private browsing): whether
  \<open>setItem(key, value)\<close> on the given entries throws. \<open>denies\<close> is its access
  policy for removals: whether \<open>removeItem(key)\<close> on the given entries throws. A call
  that throws leaves the entries as they were. These are the two calls the source
  guards with \<open>try\<close>; the reads and \<open>clear\<close> always return.
\<close>

record Storage =
  items :: "(string \<times> JSValue) list"
  rejects :: "(string \<times> JSValue) list \<Rightarrow> string \<Rightarrow> string \<Rightarrow> bool"
  denies :: "(string \<times> JSValue) list \<Rightarrow> string \<Rightarrow> bool"

definition Storage_length :: "Storage \<Rightarrow> nat" where
  "Storage_length s = length (items s)"

definition Storage_key :: "Storage \<Rightarrow> nat \<Rightarrow> string option" where
  "Storage_key s index =
     (if index < length (items s) then Some (fst (items s ! index)) else None)"

definition Storage_getItem :: "Storage \<Rightarrow> string \<Rightarrow> JSValue" where
  "Storage_getItem s key = (case map_of (items s) key of None \<Rightarrow> JSNull | Some v \<Rightarrow> v)"

text \<open>\<open>None\<close>: the call threw.\<close>

definition Storage_setItem :: "Storage \<Rightarrow> string \<Rightarrow> string \<Rightarrow> Storage option" where
  "Storage_setItem s key val =
     (if rejects s (items s) key val then None
      else Some (s\<lparr>items := AList.update key (JSString val) (items s)\<rparr>))"

definition Storage_removeItem :: "Storage \<Rightarrow> string \<Rightarrow> Storage option" where
  "Storage_removeItem s key =
     (if denies s (items s) key then None
      else Some (s\<lparr>items := AList.delete key (items s)\<rparr>))"

definition Storage_clear :: "Storage \<Rightarrow> Storage" where
  "Storage_clear s = s\<lparr>items := []\<rparr>"

text \<open>A host state holds one entry per key.\<close>

definition Storage_wf :: "Storage \<Rightarrow> bool" where
  "Storage_wf s = distinct (map fst (items s))"

section \<open>goog.storage.mechanism.HTML5WebStorage\<close>

text \<open>
  The mechanism owns the storage handle \<open>storage_\<close>, which may be \<open>null\<close>
  (\<open>isAvailable\<close> tests for it). A method returns what it returns or throws, and,
  when it writes, the mechanism with the storage object as the call left it.
\<close>

record HTML5WebStorage =
  storage :: "Storage option"

definition STORAGE_AVAILABLE_KEY :: string where
  "STORAGE_AVAILABLE_KEY = ''__sak''"

definition isAvailable :: "HTML5WebStorage \<Rightarrow> (Thrown + bool) \<times> HTML5WebStorage" where
  "isAvailable m =
     (case storage m of
        None \<Rightarrow> (Inr False, m)
      | Some s \<Rightarrow>
          (case Storage_setItem s STORAGE_AVAILABLE_KEY ''1'' of
             None \<Rightarrow> (Inr False, m)
           | Some s' \<Rightarrow>
               (case Storage_removeItem s' STORAGE_AVAILABLE_KEY of
                  None \<Rightarrow> (Inr False, m\<lparr>storage := Some s'\<rparr>)
                | Some s'' \<Rightarrow> (Inr True, m\<lparr>storage := Some s''\<rparr>))))"

definition set_mech ::
  "HTML5WebStorage \<Rightarrow> string \<Rightarrow> string \<Rightarrow> (Thrown + unit) \<times> HTML5WebStorage" where
  "set_mech m key val =
     (case storage m of
        None \<Rightarrow> (Inl TypeError, m)
      | Some s \<Rightarrow>
          (case Storage_setItem s key val of
             Some s' \<Rightarrow> (Inr (), m\<lparr>storage := Some s'\<rparr>)
           | None \<Rightarrow>
               if Storage_length s = 0 then (Inl (ErrorCode STORAGE_DISABLED), m)
               else (Inl (ErrorCode QUOTA_EXCEEDED), m)))"

definition get :: "HTML5WebStorage \<Rightarrow> string \<Rightarrow> Thrown + JSValue" where
  "get m key =
     (case storage m of
        None \<Rightarrow> Inl TypeError
      | Some s \<Rightarrow>
          (let v = Storage_getItem s key
           in if typeof v \<noteq> ''string'' \<and> v \<noteq> JSNull then Inl (ErrorCode INVALID_VALUE)
              else Inr v))"


definition getCount :: "HTML5WebStorage \<Rightarrow> Thrown + nat" where
  "getCount m = (case storage m of None \<Rightarrow> Inl TypeError | Some s \<Rightarrow> Inr (Storage_length s))"

definition clear :: "HTML5WebStorage \<Rightarrow> (Thrown + unit) \<times> HTML5WebStorage" where
  "clear m =
     (case storage m of
        None \<Rightarrow> (Inl TypeError, m)
      | Some s \<Rightarrow> (Inr (), m\<lparr>storage := Some (Storage_clear s)\<rparr>))"

definition key :: "HTML5WebStorage \<Rightarrow> nat \<Rightarrow> Thrown + string option" where
  "key m index = (case storage m of None \<Rightarrow> Inl TypeError | Some s \<Rightarrow> Inr (Storage_key s index))"

subsection \<open>The iterator\<close>

text \<open>
  The closure of \<open>__iterator__\<close> holds the counter \<open>i\<close>, the flag \<open>opt_keys\<close> and the
  storage handle. The handle is a reference to the live storage object, which the
  mechanism never reassigns, so \<open>next\<close> reads it from the mechanism at the time of the
  call.
\<close>

record Iterator =
  iter_i :: nat
  iter_opt_keys :: bool

datatype IIterableResult = ES6_ITERATOR_DONE | Yield JSValue

definition iterator :: "HTML5WebStorage \<Rightarrow> bool \<Rightarrow> Iterator" where
  "iterator m opt_keys = \<lparr>iter_i = 0, iter_opt_keys = opt_keys\<rparr>"

text \<open>
  The counter is incremented as the key is read (\<open>storage.key(i++)\<close>), before the
  value is looked at: it has advanced also when \<open>next\<close> throws.
  \<open>goog.asserts.assertString\<close> throws on a key that is not a string; below
  \<open>storage.length\<close> the host's \<open>key(index)\<close> is a string, so that branch is never taken.
\<close>

definition "next" :: "HTML5WebStorage \<Rightarrow> Iterator \<Rightarrow> (Thrown + IIterableResult) \<times> Iterator" where
  "next m it =
     (case storage m of
        None \<Rightarrow> (Inl TypeError, it)
      | Some s \<Rightarrow>
          if iter_i it \<ge> Storage_length s then (Inr ES6_ITERATOR_DONE, it)
          else
            (let it' = it\<lparr>iter_i := iter_i it + 1\<rparr>
             in case Storage_key s (iter_i it) of
                  None \<Rightarrow> (Inl AssertionError, it')
                | Some k \<Rightarrow>
                    if iter_opt_keys it then (Inr (Yield (JSString k)), it')
                    else
                      (let v = Storage_getItem s k
                       in if typeof v \<noteq> ''string'' then (Inl (ErrorCode INVALID_VALUE), it')
                          else (Inr (Yield v), it'))))"

text \<open>
  Running an iteration to completion: the consumer calls \<open>next\<close> until it reports done
  or throws, on a mechanism nobody writes to meanwhile. The result is the list of the
  elements yielded and the error that ended the traversal, if one did.
\<close>

definition remaining :: "HTML5WebStorage \<Rightarrow> Iterator \<Rightarrow> nat" where
  "remaining m it = (case storage m of None \<Rightarrow> 0 | Some s \<Rightarrow> Storage_length s - iter_i it)"

function run :: "HTML5WebStorage \<Rightarrow> Iterator \<Rightarrow> JSValue list \<times> Thrown option" where
  "run m it =
     (case next m it of
        (Inl e, it') \<Rightarrow> ([], Some e)
      | (Inr ES6_ITERATOR_DONE, it') \<Rightarrow> ([], None)
      | (Inr (Yield v), it') \<Rightarrow> (case run m it' of (vs, r) \<Rightarrow> (v # vs, r)))"
  by pat_completeness auto
termination
proof (relation "measure (\<lambda>(m, it). remaining m it)")
  show "wf (measure (\<lambda>(m, it). remaining m it))" by simp
next
  fix m it x it' r v
  assume "(x, it') = next m it" and "x = Inr r" and "r = Yield v"
  then have "next m it = (Inr (Yield v), it')" by simp
  then have "remaining m it' < remaining m it"
    by (auto simp: next_def remaining_def Let_def split: option.splits if_splits)
  then show "((m, it'), (m, it)) \<in> measure (\<lambda>(m, it). remaining m it)" by simp
qed

declare run.simps [simp del]

subsection \<open>The entries behind a mechanism\<close>

definition entries :: "HTML5WebStorage \<Rightarrow> (string \<times> JSValue) list" where
  "entries m = (case storage m of None \<Rightarrow> [] | Some s \<Rightarrow> items s)"

subsection \<open>Sample host states\<close>

text \<open>A store that holds a number under one key and accepts no fourth entry.\<close>

definition example_store :: Storage where
  "example_store =
     \<lparr>items = [(''a'', JSString ''x''), (''b'', JSNumber 3), (''c'', JSString ''z'')],
      rejects = (\<lambda>es k v. length es \<ge> 3),
      denies = (\<lambda>es k. False)\<rparr>"

text \<open>The store of a private-browsing session: empty, every write rejected.\<close>

definition private_store :: Storage where
  "private_store = \<lparr>items = [], rejects = (\<lambda>es k v. True), denies = (\<lambda>es k. False)\<rparr>"

text \<open>A store of strings only, one of them under the sentinel key, with no quota.\<close>

definition string_store :: Storage where
  "string_store =
     \<lparr>items = [(''a'', JSString ''x''), (''__sak'', JSString ''y'')],
      rejects = (\<lambda>es k v. False),
      denies = (\<lambda>es k. False)\<rparr>"

text \<open>A store that takes writes and lets nothing be removed.\<close>

definition locked_store :: Storage where
  "locked_store =
     \<lparr>items = [(''a'', JSString ''x'')],
      rejects = (\<lambda>es k v. False),
      denies = (\<lambda>es k. True)\<rparr>"

section \<open>The host operations keep one entry per key\<close>

lemma wf_clear: "Storage_wf (Storage_clear s)"
  by (simp add: Storage_wf_def Storage_clear_def)

lemma wf_removeItem: "Storage_wf s \<Longrightarrow> Storage_removeItem s k = Some s' \<Longrightarrow> Storage_wf s'"
  by (auto simp: Storage_wf_def Storage_removeItem_def distinct_delete split: if_splits)

lemma wf_setItem: "Storage_wf s \<Longrightarrow> Storage_setItem s k v = Some s' \<Longrightarrow> Storage_wf s'"
  by (auto simp: Storage_wf_def Storage_setItem_def distinct_update split: if_splits)

lemma getItem_stored:
  "Storage_wf s \<Longrightarrow> e \<in> set (items s) \<Longrightarrow> Storage_getItem s (fst e) = snd e"
  by (cases e) (simp add: Storage_wf_def Storage_getItem_def)

lemma stored_values:
  "Storage_wf s \<Longrightarrow> map (\<lambda>e. Storage_getItem s (fst e)) (items s) = map snd (items s)"
  by (simp add: getItem_stored)

lemma getItem_key_string:
  assumes "\<forall>e \<in> set (items s). typeof (snd e) = ''string''" and "e \<in> set (items s)"
  shows "typeof (Storage_getItem s (fst e)) = ''string''"
proof -
  from assms(2) have "fst e \<in> fst ` set (items s)" by simp
  then have "map_of (items s) (fst e) \<noteq> None" by (simp add: map_of_eq_None_iff)
  then obtain v where v: "map_of (items s) (fst e) = Some v" by blast
  then have "(fst e, v) \<in> set (items s)" by (rule map_of_SomeD)
  with assms(1) have "typeof v = ''string''" by fastforce
  with v show ?thesis by (simp add: Storage_getItem_def)
qed

section \<open>One step of the iterator, and a whole traversal\<close>

lemma next_keys:
  "i < length (items s) \<Longrightarrow>
   next \<lparr>storage = Some s\<rparr> \<lparr>iter_i = i, iter_opt_keys = True\<rparr> =
     (Inr (Yield (JSString (fst (items s ! i)))), \<lparr>iter_i = Suc i, iter_opt_keys = True\<rparr>)"
  by (simp add: next_def Storage_length_def Storage_key_def)

lemma next_values:
  "i < length (items s) \<Longrightarrow>
   next \<lparr>storage = Some s\<rparr> \<lparr>iter_i = i, iter_opt_keys = False\<rparr> =
     (if typeof (Storage_getItem s (fst (items s ! i))) \<noteq> ''string''
      then Inl (ErrorCode INVALID_VALUE)
      else Inr (Yield (Storage_getItem s (fst (items s ! i)))),
      \<lparr>iter_i = Suc i, iter_opt_keys = False\<rparr>)"
  by (simp add: next_def Storage_length_def Storage_key_def Let_def)

lemma next_done:
  "length (items s) \<le> i \<Longrightarrow>
   next \<lparr>storage = Some s\<rparr> \<lparr>iter_i = i, iter_opt_keys = b\<rparr> =
     (Inr ES6_ITERATOR_DONE, \<lparr>iter_i = i, iter_opt_keys = b\<rparr>)"
  by (simp add: next_def Storage_length_def)

text \<open>From position \<open>i\<close> on, the keys-only traversal yields the remaining keys and ends.\<close>

lemma run_keys_from:
  "run \<lparr>storage = Some s\<rparr> \<lparr>iter_i = i, iter_opt_keys = True\<rparr> =
     (map (\<lambda>e. JSString (fst e)) (drop i (items s)), None)"
proof (induction "length (items s) - i" arbitrary: i)
  case 0
  then have "length (items s) \<le> i" by simp
  then show ?case by (subst run.simps) (simp add: next_done)
next
  case (Suc n)
  then have lt: "i < length (items s)" and n: "n = length (items s) - Suc i" by simp_all
  from Suc.hyps(1) [OF n] lt show ?case
    by (subst run.simps) (simp add: next_keys Cons_nth_drop_Suc [symmetric])
qed

text \<open>
  From position \<open>i\<close> on, the value traversal yields the values read back for the
  remaining keys as long as they are strings, and ends in \<open>INVALID_VALUE\<close> at the first
  that is not.
\<close>

lemma run_values_from:
  "run \<lparr>storage = Some s\<rparr> \<lparr>iter_i = i, iter_opt_keys = False\<rparr> =
     (takeWhile (\<lambda>v. typeof v = ''string'')
        (map (\<lambda>e. Storage_getItem s (fst e)) (drop i (items s))),
      if list_all (\<lambda>v. typeof v = ''string'')
           (map (\<lambda>e. Storage_getItem s (fst e)) (drop i (items s)))
      then None else Some (ErrorCode INVALID_VALUE))"
proof (induction "length (items s) - i" arbitrary: i)
  case 0
  then have "length (items s) \<le> i" by simp
  then show ?case by (subst run.simps) (simp add: next_done)
next
  case (Suc n)
  then have lt: "i < length (items s)" and n: "n = length (items s) - Suc i" by simp_all
  from Suc.hyps(1) [OF n] lt show ?case
    by (subst run.simps) (simp add: next_values Cons_nth_drop_Suc [symmetric])
qed

section \<open>set, get and remove\<close>

text \<open>
  C1: for every string key \<open>k\<close> and string value \<open>v\<close>, when the underlying write
  succeeds, \<open>set(k, v)\<close> returns normally and \<open>get(k)\<close> on the mechanism it leaves,
  with nothing done in between, returns exactly \<open>v\<close>.
\<close>

theorem set_then_get:
  "Storage_setItem s k v \<noteq> None \<Longrightarrow>
   fst (set_mech \<lparr>storage = Some s\<rparr> k v) = Inr () \<and>
   get (snd (set_mech \<lparr>storage = Some s\<rparr> k v)) k = Inr (JSString v)"
  by (auto simp: set_mech_def get_def Storage_setItem_def Storage_getItem_def typeof_def
      update_conv' split: if_splits)

theorem set_then_get_witness:
  "Storage_setItem string_store ''a'' ''new'' \<noteq> None \<and>
   fst (set_mech \<lparr>storage = Some string_store\<rparr> ''a'' ''new'') = Inr () \<and>
   get (snd (set_mech \<lparr>storage = Some string_store\<rparr> ''a'' ''new'')) ''a'' =
     Inr (JSString ''new'')"
proof -
  have h: "Storage_setItem string_store ''a'' ''new'' \<noteq> None"
    by (simp add: Storage_setItem_def string_store_def)
  from h set_then_get [OF h] show ?thesis by simp
qed

text \<open>
  C2: for every key and value, when the write performed by \<open>set\<close> throws, \<open>set\<close>
  raises \<open>STORAGE_DISABLED\<close> if the backend's entry count is zero at that time and
  \<open>QUOTA_EXCEEDED\<close> if it is not; when the write does not throw, \<open>set\<close> raises
  nothing.
\<close>

theorem set_errors:
  "(Storage_setItem s k v = None \<and> Storage_length s = 0 \<longrightarrow>
      fst (set_mech \<lparr>storage = Some s\<rparr> k v) = Inl (ErrorCode STORAGE_DISABLED)) \<and>
   (Storage_setItem s k v = None \<and> Storage_length s \<noteq> 0 \<longrightarrow>
      fst (set_mech \<lparr>storage = Some s\<rparr> k v) = Inl (ErrorCode QUOTA_EXCEEDED)) \<and>
   (Storage_setItem s k v \<noteq> None \<longrightarrow> fst (set_mech \<lparr>storage = Some s\<rparr> k v) = Inr ())"
  by (auto simp: set_mech_def)

theorem set_errors_witness:
  "(Storage_setItem private_store ''k'' ''v'' = None \<and> Storage_length private_store = 0 \<and>
      fst (set_mech \<lparr>storage = Some private_store\<rparr> ''k'' ''v'') =
        Inl (ErrorCode STORAGE_DISABLED)) \<and>
   (Storage_setItem example_store ''k'' ''v'' = None \<and> Storage_length example_store \<noteq> 0 \<and>
      fst (set_mech \<lparr>storage = Some example_store\<rparr> ''k'' ''v'') =
        Inl (ErrorCode QUOTA_EXCEEDED)) \<and>
   (Storage_setItem string_store ''k'' ''v'' \<noteq> None \<and>
      fst (set_mech \<lparr>storage = Some string_store\<rparr> ''k'' ''v'') = Inr ())"
proof -
  have a: "Storage_setItem private_store ''k'' ''v'' = None \<and> Storage_length private_store = 0"
    by (simp add: Storage_setItem_def Storage_length_def private_store_def)
  have b: "Storage_setItem example_store ''k'' ''v'' = None \<and> Storage_length example_store \<noteq> 0"
    by (simp add: Storage_setItem_def Storage_length_def example_store_def)
  have c: "Storage_setItem string_store ''k'' ''v'' \<noteq> None"
    by (simp add: Storage_setItem_def string_store_def)
  from a b c set_errors [of private_store "''k''" "''v''"]
    set_errors [of example_store "''k''" "''v''"] set_errors [of string_store "''k''" "''v''"]
  show ?thesis by blast
qed

text \<open>
  C3: for every key \<open>k\<close>, \<open>get(k)\<close> returns the string stored under \<open>k\<close>, returns
  \<open>null\<close> when the backend has no entry for \<open>k\<close>, and throws exactly when the value
  the backend hands back for \<open>k\<close> is neither a string nor \<open>null\<close>, and then it throws
  \<open>INVALID_VALUE\<close>. What it returns is the value the backend handed back, unchanged.
\<close>

theorem get_result:
  "(map_of (items s) k = Some (JSString v) \<longrightarrow> get \<lparr>storage = Some s\<rparr> k = Inr (JSString v)) \<and>
   (map_of (items s) k = None \<longrightarrow> get \<lparr>storage = Some s\<rparr> k = Inr JSNull) \<and>
   ((\<exists>e. get \<lparr>storage = Some s\<rparr> k = Inl e) \<longleftrightarrow>
      typeof (Storage_getItem s k) \<noteq> ''string'' \<and> Storage_getItem s k \<noteq> JSNull) \<and>
   (\<forall>e. get \<lparr>storage = Some s\<rparr> k = Inl e \<longrightarrow> e = ErrorCode INVALID_VALUE) \<and>
   (\<forall>x. get \<lparr>storage = Some s\<rparr> k = Inr x \<longrightarrow> x = Storage_getItem s k)"
  by (auto simp: get_def Storage_getItem_def typeof_def Let_def
      split: option.splits JSValue.splits)

theorem get_result_witness:
  "get \<lparr>storage = Some example_store\<rparr> ''a'' = Inr (JSString ''x'') \<and>
   get \<lparr>storage = Some example_store\<rparr> ''q'' = Inr JSNull \<and>
   get \<lparr>storage = Some example_store\<rparr> ''b'' = Inl (ErrorCode INVALID_VALUE)"
proof -
  have a: "map_of (items example_store) ''a'' = Some (JSString ''x'')"
    by (simp add: example_store_def)
  have q: "map_of (items example_store) ''q'' = None"
    by (simp add: example_store_def)
  have b: "typeof (Storage_getItem example_store ''b'') \<noteq> ''string'' \<and>
           Storage_getItem example_store ''b'' \<noteq> JSNull"
    by (simp add: example_store_def Storage_getItem_def typeof_def)
  from a q b get_result [of example_store "''a''" "''x''"]
    get_result [of example_store "''q''"] get_result [of example_store "''b''"]
  show ?thesis by blast
qed



section \<open>clear and getCount\<close>

text \<open>
  C8: for every backend state, \<open>clear()\<close> returns normally and \<open>getCount()\<close> on the
  mechanism it leaves returns 0.
\<close>

theorem clear_then_getCount:
  "fst (clear \<lparr>storage = Some s\<rparr>) = Inr () \<and>
   getCount (snd (clear \<lparr>storage = Some s\<rparr>)) = Inr 0"
  by (simp add: clear_def getCount_def Storage_clear_def Storage_length_def)

section \<open>isAvailable\<close>

text \<open>
  C6: \<open>isAvailable()\<close> returns true exactly when the storage handle exists, the
  write of the sentinel key \<open>'__sak'\<close> does not throw and the removal of that key
  after it does not throw either; it returns false when the handle is absent or one of
  the two calls throws; it never throws itself.
\<close>

theorem isAvailable_result:
  "(fst (isAvailable m) = Inr True \<longleftrightarrow>
      (\<exists>s s'. storage m = Some s \<and> Storage_setItem s ''__sak'' ''1'' = Some s' \<and>
         Storage_removeItem s' ''__sak'' \<noteq> None)) \<and>
   (fst (isAvailable m) = Inr False \<longleftrightarrow>
      (storage m = None \<or>
       (\<exists>s. storage m = Some s \<and>
          (Storage_setItem s ''__sak'' ''1'' = None \<or>
           (\<exists>s'. Storage_setItem s ''__sak'' ''1'' = Some s' \<and>
              Storage_removeItem s' ''__sak'' = None))))) \<and>
   (\<forall>e. fst (isAvailable m) \<noteq> Inl e)"
  by (auto simp: isAvailable_def STORAGE_AVAILABLE_KEY_def split: option.splits)

theorem isAvailable_result_witness:
  "fst (isAvailable \<lparr>storage = Some string_store\<rparr>) = Inr True \<and>
   fst (isAvailable \<lparr>storage = Some private_store\<rparr>) = Inr False \<and>
   fst (isAvailable \<lparr>storage = Some locked_store\<rparr>) = Inr False \<and>
   fst (isAvailable \<lparr>storage = None\<rparr>) = Inr False"
proof -
  have a: "\<exists>s'. Storage_setItem string_store ''__sak'' ''1'' = Some s' \<and>
             Storage_removeItem s' ''__sak'' \<noteq> None"
    by (simp add: Storage_setItem_def Storage_removeItem_def string_store_def)
  have b: "Storage_setItem private_store ''__sak'' ''1'' = None"
    by (simp add: Storage_setItem_def private_store_def)
  have c: "\<exists>s'. Storage_setItem locked_store ''__sak'' ''1'' = Some s' \<and>
             Storage_removeItem s' ''__sak'' = None"
    by (simp add: Storage_setItem_def Storage_removeItem_def locked_store_def)
  from a have "fst (isAvailable \<lparr>storage = Some string_store\<rparr>) = Inr True"
    using isAvailable_result [of "\<lparr>storage = Some string_store\<rparr>"] by simp
  moreover from b have "fst (isAvailable \<lparr>storage = Some private_store\<rparr>) = Inr False"
    using isAvailable_result [of "\<lparr>storage = Some private_store\<rparr>"] by simp
  moreover from c have "fst (isAvailable \<lparr>storage = Some locked_store\<rparr>) = Inr False"
    using isAvailable_result [of "\<lparr>storage = Some locked_store\<rparr>"] by simp
  moreover have "fst (isAvailable \<lparr>storage = None\<rparr>) = Inr False"
    using isAvailable_result [of "\<lparr>storage = None\<rparr>"] by simp
  ultimately show ?thesis by simp
qed

text \<open>
  C9: for every backend state and every key other than the sentinel key \<open>'__sak'\<close>,
  the entry of that key is the same after \<open>isAvailable()\<close> as before; after a probe
  that returned true the backend has no entry under \<open>'__sak'\<close>. The probe neither
  creates nor drops the storage handle.
\<close>

theorem isAvailable_frame:
  "(k \<noteq> ''__sak'' \<longrightarrow> map_of (entries (snd (isAvailable m))) k = map_of (entries m) k) \<and>
   (fst (isAvailable m) = Inr True \<longrightarrow> map_of (entries (snd (isAvailable m))) ''__sak'' = None) \<and>
   (storage (snd (isAvailable m)) = None \<longleftrightarrow> storage m = None)"
  by (auto simp: isAvailable_def entries_def Storage_setItem_def Storage_removeItem_def
      STORAGE_AVAILABLE_KEY_def update_conv' delete_conv' split: option.splits if_splits)

theorem isAvailable_frame_witness:
  "map_of (entries (snd (isAvailable \<lparr>storage = Some string_store\<rparr>))) ''a'' =
     Some (JSString ''x'') \<and>
   map_of (entries \<lparr>storage = Some string_store\<rparr>) ''__sak'' = Some (JSString ''y'') \<and>
   map_of (entries (snd (isAvailable \<lparr>storage = Some string_store\<rparr>))) ''__sak'' = None"
proof -
  have ne: "''a'' \<noteq> ''__sak''" by simp
  have t: "fst (isAvailable \<lparr>storage = Some string_store\<rparr>) = Inr True"
    by (simp add: isAvailable_def Storage_setItem_def Storage_removeItem_def string_store_def)
  have e: "map_of (entries \<lparr>storage = Some string_store\<rparr>) ''a'' = Some (JSString ''x'') \<and>
           map_of (entries \<lparr>storage = Some string_store\<rparr>) ''__sak'' = Some (JSString ''y'')"
    by (simp add: entries_def string_store_def)
  from ne t e isAvailable_frame [of "''a''" "\<lparr>storage = Some string_store\<rparr>"]
  show ?thesis by simp
qed

section \<open>Iteration\<close>

text \<open>
  C4, as the code has it: for every backend state, the value iteration visits the
  entries in positional index order. A call of \<open>next\<close> at a position whose stored value
  is a string yields that value; at a position whose stored value is not a string it
  throws \<open>INVALID_VALUE\<close> at once. In both cases the counter moves to the following
  position, so the error does not end the iterator: a further call of \<open>next\<close> goes on
  with the entry after the offending one. A traversal that stops at the first error has
  yielded exactly the values before the first position that holds no string, and ends
  normally with every value when there is no such position.
\<close>

theorem value_iteration:
  assumes "Storage_wf s"
  shows "run \<lparr>storage = Some s\<rparr> (iterator \<lparr>storage = Some s\<rparr> False) =
           (takeWhile (\<lambda>v. typeof v = ''string'') (map snd (items s)),
            if list_all (\<lambda>v. typeof v = ''string'') (map snd (items s)) then None
            else Some (ErrorCode INVALID_VALUE)) \<and>
         (\<forall>j < length (items s).
            next \<lparr>storage = Some s\<rparr> \<lparr>iter_i = j, iter_opt_keys = False\<rparr> =
              (if typeof (snd (items s ! j)) = ''string'' then Inr (Yield (snd (items s ! j)))
               else Inl (ErrorCode INVALID_VALUE),
               \<lparr>iter_i = Suc j, iter_opt_keys = False\<rparr>)) \<and>
         (\<forall>j \<ge> length (items s).
            next \<lparr>storage = Some s\<rparr> \<lparr>iter_i = j, iter_opt_keys = False\<rparr> =
              (Inr ES6_ITERATOR_DONE, \<lparr>iter_i = j, iter_opt_keys = False\<rparr>))"
proof -
  have steps: "Storage_getItem s (fst (items s ! j)) = snd (items s ! j)"
    if "j < length (items s)" for j
    using assms that by (simp add: getItem_stored)
  from assms show ?thesis
    by (simp add: iterator_def run_values_from stored_values next_values next_done steps)
qed

theorem value_iteration_witness:
  "Storage_wf example_store \<and>
   run \<lparr>storage = Some example_store\<rparr> (iterator \<lparr>storage = Some example_store\<rparr> False) =
     ([JSString ''x''], Some (ErrorCode INVALID_VALUE)) \<and>
   next \<lparr>storage = Some example_store\<rparr> \<lparr>iter_i = 1, iter_opt_keys = False\<rparr> =
     (Inl (ErrorCode INVALID_VALUE), \<lparr>iter_i = 2, iter_opt_keys = False\<rparr>) \<and>
   next \<lparr>storage = Some example_store\<rparr> \<lparr>iter_i = 2, iter_opt_keys = False\<rparr> =
     (Inr (Yield (JSString ''z'')), \<lparr>iter_i = 3, iter_opt_keys = False\<rparr>) \<and>
   next \<lparr>storage = Some example_store\<rparr> \<lparr>iter_i = 3, iter_opt_keys = False\<rparr> =
     (Inr ES6_ITERATOR_DONE, \<lparr>iter_i = 3, iter_opt_keys = False\<rparr>)"
proof -
  have wf: "Storage_wf example_store"
    by (simp add: Storage_wf_def example_store_def)
  have vs: "map snd (items example_store) = [JSString ''x'', JSNumber 3, JSString ''z'']"
    by (simp add: example_store_def)
  have len: "length (items example_store) = 3 \<and> snd (items example_store ! 1) = JSNumber 3 \<and>
             snd (items example_store ! 2) = JSString ''z''"
    by (simp add: example_store_def)
  have two: "Suc 1 = 2 \<and> Suc 2 = 3" by simp
  from wf vs len two value_iteration [OF wf] show ?thesis
    by (simp add: typeof_def)
qed

text \<open>
  The value iteration over the sample store, which holds a number at position 1: the
  first call yields \<open>'x'\<close>, the second throws \<open>INVALID_VALUE\<close>, and the third yields
  \<open>'z'\<close>, an element after the error.
\<close>

theorem value_iteration_counterexample:
  "fst (next \<lparr>storage = Some example_store\<rparr> (iterator \<lparr>storage = Some example_store\<rparr> False)) =
     Inr (Yield (JSString ''x'')) \<and>
   fst (next \<lparr>storage = Some example_store\<rparr>
     (snd (next \<lparr>storage = Some example_store\<rparr>
       (iterator \<lparr>storage = Some example_store\<rparr> False)))) =
     Inl (ErrorCode INVALID_VALUE) \<and>
   fst (next \<lparr>storage = Some example_store\<rparr>
     (snd (next \<lparr>storage = Some example_store\<rparr>
       (snd (next \<lparr>storage = Some example_store\<rparr>
         (iterator \<lparr>storage = Some example_store\<rparr> False)))))) =
     Inr (Yield (JSString ''z''))"
  by (simp add: next_def iterator_def example_store_def Storage_length_def Storage_key_def
      Storage_getItem_def typeof_def)

text \<open>
  C5: for every backend state in which all stored values are strings, and which nobody
  writes to during the traversal, the iteration returned by \<open>__iterator__\<close>, for keys or
  for values, runs to completion without an error and produces as many elements as
  \<open>getCount()\<close> returns.
\<close>

theorem getCount_iteration:
  assumes "\<forall>e \<in> set (items s). typeof (snd e) = ''string''"
  shows "snd (run \<lparr>storage = Some s\<rparr> (iterator \<lparr>storage = Some s\<rparr> opt_keys)) = None \<and>
         getCount \<lparr>storage = Some s\<rparr> =
           Inr (length (fst (run \<lparr>storage = Some s\<rparr> (iterator \<lparr>storage = Some s\<rparr> opt_keys))))"
proof (cases opt_keys)
  case True
  then show ?thesis
    by (simp add: iterator_def run_keys_from getCount_def Storage_length_def)
next
  case False
  let ?vs = "map (\<lambda>e. Storage_getItem s (fst e)) (items s)"
  from assms have all: "\<forall>e \<in> set (items s). typeof (Storage_getItem s (fst e)) = ''string''"
    by (blast intro: getItem_key_string)
  then have ok: "list_all (\<lambda>v. typeof v = ''string'') ?vs"
    by (simp add: list_all_iff)
  from all have tw: "takeWhile (\<lambda>v. typeof v = ''string'') ?vs = ?vs"
    by (simp add: takeWhile_eq_all_conv)
  have len: "length (takeWhile (\<lambda>v. typeof v = ''string'') ?vs) = length (items s)"
    by (subst tw) simp
  have "run \<lparr>storage = Some s\<rparr> (iterator \<lparr>storage = Some s\<rparr> opt_keys) =
      (takeWhile (\<lambda>v. typeof v = ''string'') ?vs, None)"
    using False ok by (simp add: iterator_def run_values_from)
  with len show ?thesis
    by (simp add: getCount_def Storage_length_def)
qed

theorem getCount_iteration_witness:
  "list_all (\<lambda>e. typeof (snd e) = ''string'') (items string_store) \<and>
   getCount \<lparr>storage = Some string_store\<rparr> = Inr 2 \<and>
   snd (run \<lparr>storage = Some string_store\<rparr> (iterator \<lparr>storage = Some string_store\<rparr> False)) = None \<and>
   length (fst (run \<lparr>storage = Some string_store\<rparr> (iterator \<lparr>storage = Some string_store\<rparr> False))) = 2"
proof -
  have h: "\<forall>e \<in> set (items string_store). typeof (snd e) = ''string''"
    by (simp add: string_store_def typeof_def)
  have c: "getCount \<lparr>storage = Some string_store\<rparr> = Inr 2"
    by (simp add: getCount_def Storage_length_def string_store_def)
  from h have l: "list_all (\<lambda>e. typeof (snd e) = ''string'') (items string_store)"
    by (simp add: list_all_iff)
  from l c getCount_iteration [OF h, of False] show ?thesis by simp
qed

text \<open>
  C10: for every backend state, the keys-only iteration yields every key by positional
  index and ends normally: what it yields is a function of the keys alone, so no stored
  value is read and \<open>INVALID_VALUE\<close> is never raised, also when the value stored under
  some key is not a string, where the value iteration over the same state ends in
  \<open>INVALID_VALUE\<close>.
\<close>

theorem keys_iteration:
  "run \<lparr>storage = Some s\<rparr> (iterator \<lparr>storage = Some s\<rparr> True) =
     (map JSString (map fst (items s)), None) \<and>
   (Storage_wf s \<and> (\<exists>e \<in> set (items s). typeof (snd e) \<noteq> ''string'') \<longrightarrow>
      snd (run \<lparr>storage = Some s\<rparr> (iterator \<lparr>storage = Some s\<rparr> False)) =
        Some (ErrorCode INVALID_VALUE))"
  by (auto simp: iterator_def run_keys_from run_values_from stored_values list_all_iff)

theorem keys_iteration_witness:
  "run \<lparr>storage = Some example_store\<rparr> (iterator \<lparr>storage = Some example_store\<rparr> True) =
     ([JSString ''a'', JSString ''b'', JSString ''c''], None) \<and>
   snd (run \<lparr>storage = Some example_store\<rparr> (iterator \<lparr>storage = Some example_store\<rparr> False)) =
     Some (ErrorCode INVALID_VALUE)"
proof -
  have wf: "Storage_wf example_store"
    by (simp add: Storage_wf_def example_store_def)
  have ex: "\<exists>e \<in> set (items example_store). typeof (snd e) \<noteq> ''string''"
    by (simp add: example_store_def typeof_def)
  have ks: "map fst (items example_store) = [''a'', ''b'', ''c'']"
    by (simp add: example_store_def)
  from wf ex ks keys_iteration [of example_store] show ?thesis by simp
qed

end
